theory Spec2Isabelle
  imports Main
begin

section \<open>The dashboard controller of script.js\<close>

text \<open>
  The script is one closure run on \<open>DOMContentLoaded\<close>. Its variables (\<open>isRunning\<close>,
  \<open>statusInterval\<close>), the properties of the DOM elements it writes, and the part of the
  browser it talks to (interval timers, issued fetches, the console) are the fields of one
  state record. An asynchronous function is split at its first \<open>await\<close>: the part that
  runs at the call issues the request, the rest runs when the browser delivers the outcome
  of the fetch.
\<close>

subsection \<open>Values parsed from a response body\<close>

text \<open>
  What \<open>response.json()\<close> can return. Numbers are the integers (the status object
  carries a head count), meant below \<open>10^21\<close> in magnitude, where JavaScript prints an
  integer in plain decimal; fractions and larger numbers are outside the model. An object is
  the list of its own properties, each name once.
\<close>

datatype json =
    JNull
  | JBool bool
  | JNum int
  | JStr string
  | JArr "json list"
  | JObj "(string \<times> json) list"

text \<open>The value of an expression: a parsed value, or \<open>undefined\<close>.\<close>

datatype js_value = Undefined | Val json

datatype js_error = TypeError | SyntaxError | ReferenceError

text \<open>
  What \<open>await fetch(url)\<close> followed by \<open>await response.json()\<close> can meet: the
  request fails in transport, or a response arrives with an HTTP status code and a body that
  parses (\<open>Some\<close>) or does not (\<open>None\<close>).
\<close>

datatype fetch_outcome = NetworkFailure | Response nat "json option"

text \<open>
  Reading \<open>v.name\<close> for the names the script reads as data (\<open>headCount\<close>,
  \<open>recording\<close>, \<open>status\<close>, \<open>motionStatus\<close>, \<open>length\<close>): a property of
  \<open>null\<close> is a TypeError, an object gives its own property, a string or an array has a
  \<open>length\<close>, everything else is \<open>undefined\<close>.
\<close>

fun get_prop :: "json \<Rightarrow> string \<Rightarrow> js_error + js_value" where
  "get_prop JNull name = Inl TypeError"
| "get_prop (JObj kvs) name =
     Inr (case map_of kvs name of None \<Rightarrow> Undefined | Some v \<Rightarrow> Val v)"
| "get_prop (JStr s) name =
     Inr (if name = ''length'' then Val (JNum (int (length s))) else Undefined)"
| "get_prop (JArr xs) name =
     Inr (if name = ''length'' then Val (JNum (int (length xs))) else Undefined)"
| "get_prop (JBool b) name = Inr Undefined"
| "get_prop (JNum n) name = Inr Undefined"

text \<open>The condition of an \<open>if\<close>: ToBoolean.\<close>

fun truthy :: "js_value \<Rightarrow> bool" where
  "truthy Undefined = False"
| "truthy (Val JNull) = False"
| "truthy (Val (JBool b)) = b"
| "truthy (Val (JNum n)) = (n \<noteq> 0)"
| "truthy (Val (JStr s)) = (s \<noteq> [])"
| "truthy (Val (JArr xs)) = True"
| "truthy (Val (JObj kvs)) = True"

fun dec :: "nat \<Rightarrow> string" where
  "dec n = (if n < 10 then [''0123456789'' ! n]
            else dec (n div 10) @ [''0123456789'' ! (n mod 10)])"

definition join_comma :: "string list \<Rightarrow> string" where
  "join_comma ss = (case ss of [] \<Rightarrow> [] | x # xs \<Rightarrow> x @ concat (map (\<lambda>y. '','' @ y) xs))"

text \<open>ToString of a parsed value; an array joins its elements, \<open>null\<close> ones as empty.\<close>

fun toString :: "json \<Rightarrow> string" where
  "toString JNull = ''null''"
| "toString (JBool b) = (if b then ''true'' else ''false'')"
| "toString (JNum n) = (if n < 0 then ''-'' @ dec (nat (- n)) else dec (nat n))"
| "toString (JStr s) = s"
| "toString (JArr xs) =
     join_comma (map (\<lambda>x. if x = JNull then [] else toString x) xs)"
| "toString (JObj kvs) = ''[object Object]''"

text \<open>
  Assigning to \<open>textContent\<close>: \<open>null\<close> and \<open>undefined\<close> give the empty string,
  any other value its ToString.
\<close>

fun textContent_of :: "js_value \<Rightarrow> string" where
  "textContent_of Undefined = []"
| "textContent_of (Val JNull) = []"
| "textContent_of (Val v) = toString v"

subsection \<open>The page and the state\<close>

text \<open>
  \<open>origin\<close> is \<open>window.location.origin\<close>. \<open>OUTPUT_FOLDER\<close> is the global binding
  of that name, if the page has one: the script reads the identifier and declares it
  nowhere.
\<close>

record page =
  origin :: string
  OUTPUT_FOLDER :: "string option"

definition VIDEO_FEED_URL :: "page \<Rightarrow> string" where
  "VIDEO_FEED_URL p = origin p @ ''/video_feed''"

definition STATUS_URL :: "page \<Rightarrow> string" where
  "STATUS_URL p = origin p @ ''/status''"

definition RECORDINGS_URL :: "page \<Rightarrow> string" where
  "RECORDINGS_URL p = origin p @ ''/recordings''"

text \<open>The identifiers the script declares, each once, in the order of the file.\<close>

definition declared_identifiers :: "string list" where
  "declared_identifiers =
     [''videoFeed'', ''statusIndicator'', ''statusText'', ''headCount'', ''recordingStatus'',
      ''motionStatus'', ''startBtn'', ''stopBtn'', ''refreshBtn'', ''recordingsList'',
      ''API_BASE_URL'', ''VIDEO_FEED_URL'', ''STATUS_URL'', ''RECORDINGS_URL'',
      ''isRunning'', ''statusInterval'',
      ''startStatusUpdates'', ''stopStatusUpdates'', ''updateStatus'', ''response'', ''data'',
      ''error'', ''fetchRecordings'', ''recordings'', ''recording'', ''recordingItem'',
      ''dateMatch'', ''dateStr'', ''year'', ''month'', ''day'', ''hour'', ''minute'', ''second'',
      ''init'']"

text \<open>
  Evaluating the free identifier \<open>OUTPUT_FOLDER\<close> inside \<open>fetchRecordings\<close>: no scope
  of the script binds it, so the global object decides; unbound there is a ReferenceError.
\<close>

definition resolve_OUTPUT_FOLDER :: "page \<Rightarrow> js_error + string" where
  "resolve_OUTPUT_FOLDER p =
     (case OUTPUT_FOLDER p of None \<Rightarrow> Inl ReferenceError | Some folder \<Rightarrow> Inr folder)"

record element =
  className :: string
  innerHTML :: string

text \<open>An interval timer of the browser; every one the script registers calls \<open>updateStatus\<close>.\<close>

record timer =
  handle :: nat
  period :: nat
  due :: nat

text \<open>The properties of the document's elements that the script writes.\<close>

record document =
  videoFeed_src :: string
  statusIndicator_className :: string
  statusText_textContent :: string
  headCount_textContent :: string
  recordingStatus_textContent :: string
  motionStatus_textContent :: string
  recordingsList_innerHTML :: string
  recordingsList_appended :: "element list"

text \<open>
  \<open>recordingsList_appended\<close> are the children appended since the last assignment to
  \<open>recordingsList.innerHTML\<close> (which replaces all children). \<open>now\<close> is the clock in
  milliseconds, \<open>fetched\<close> the URLs requested so far (latest first), \<open>pendingStatus\<close>
  and \<open>pendingRecordings\<close> the requests not yet answered, \<open>unhandled\<close> the rejections
  of promises nobody catches.
\<close>

record state = document +
  isRunning :: bool
  statusInterval :: "nat option"
  now :: nat
  timers :: "timer list"
  nextHandle :: nat
  fetched :: "string list"
  pendingStatus :: nat
  pendingRecordings :: nat
  console :: "(string \<times> js_error option) list"
  unhandled :: "js_error list"

text \<open>How a block ends: normally, or by throwing, in the state reached so far.\<close>

datatype completion = Normal state | Throw js_error state

subsection \<open>Timers and status polling\<close>

text \<open>
  \<open>setInterval(updateStatus, ms)\<close> registers a timer first due \<open>ms\<close> from now and
  returns its handle; handles are positive and never reused. \<open>clearInterval\<close> removes
  the timer with that handle.
\<close>

definition setInterval :: "nat \<Rightarrow> state \<Rightarrow> nat \<times> state" where
  "setInterval ms s =
     (nextHandle s,
      s\<lparr>timers := timers s @ [\<lparr>handle = nextHandle s, period = ms, due = now s + ms\<rparr>],
        nextHandle := Suc (nextHandle s)\<rparr>)"

definition clearInterval :: "nat \<Rightarrow> state \<Rightarrow> state" where
  "clearInterval h s = s\<lparr>timers := filter (\<lambda>t. handle t \<noteq> h) (timers s)\<rparr>"

text \<open>\<open>updateStatus()\<close> up to its first \<open>await\<close>: the request for the status is issued.\<close>

definition updateStatus_call :: "page \<Rightarrow> state \<Rightarrow> state" where
  "updateStatus_call p s =
     s\<lparr>fetched := STATUS_URL p # fetched s, pendingStatus := Suc (pendingStatus s)\<rparr>"

text \<open>The \<open>try\<close> block of \<open>updateStatus\<close>, from the outcome of the fetch on.\<close>

definition updateStatus_try :: "fetch_outcome \<Rightarrow> state \<Rightarrow> completion" where
  "updateStatus_try r s =
     (case r of
        NetworkFailure \<Rightarrow> Throw TypeError s
      | Response code None \<Rightarrow> Throw SyntaxError s
      | Response code (Some data) \<Rightarrow>
          (case get_prop data ''headCount'' of
             Inl e \<Rightarrow> Throw e s
           | Inr hc \<Rightarrow>
               let s1 = s\<lparr>headCount_textContent := textContent_of hc\<rparr> in
               (case get_prop data ''recording'' of
                  Inl e \<Rightarrow> Throw e s1
                | Inr rec \<Rightarrow>
                    let s2 =
                      (if truthy rec
                       then s1\<lparr>recordingStatus_textContent := ''Recording'',
                               statusIndicator_className := ''status-indicator recording''\<rparr>
                       else s1\<lparr>recordingStatus_textContent := ''Not Recording'',
                               statusIndicator_className := ''status-indicator monitoring''\<rparr>)
                    in
                    (case get_prop data ''status'' of
                       Inl e \<Rightarrow> Throw e s2
                     | Inr st \<Rightarrow>
                         let s3 = s2\<lparr>statusText_textContent := textContent_of st\<rparr> in
                         (case get_prop data ''motionStatus'' of
                            Inl e \<Rightarrow> Throw e s3
                          | Inr ms \<Rightarrow>
                              Normal (s3\<lparr>motionStatus_textContent := textContent_of ms\<rparr>))))))"

text \<open>
  \<open>updateStatus\<close> after the fetch has settled: the \<open>try\<close> block, and the \<open>catch\<close>
  that logs what it threw. The result is how the promise of the call settles.
\<close>

definition updateStatus :: "fetch_outcome \<Rightarrow> state \<Rightarrow> completion" where
  "updateStatus r s =
     (case updateStatus_try r s of
        Normal s' \<Rightarrow> Normal s'
      | Throw e s' \<Rightarrow> Normal (s'\<lparr>console := (''Error fetching status:'', Some e) # console s'\<rparr>))"

definition startStatusUpdates :: "page \<Rightarrow> state \<Rightarrow> state" where
  "startStatusUpdates p s =
     (let s1 = (case statusInterval s of
                  None \<Rightarrow> s
                | Some h \<Rightarrow> if h \<noteq> 0 then clearInterval h s else s);
          s2 = updateStatus_call p s1;
          (h, s3) = setInterval 1000 s2
      in s3\<lparr>statusInterval := Some h\<rparr>)"

definition stopStatusUpdates :: "state \<Rightarrow> state" where
  "stopStatusUpdates s =
     (case statusInterval s of
        None \<Rightarrow> s
      | Some h \<Rightarrow> if h \<noteq> 0 then (clearInterval h s)\<lparr>statusInterval := None\<rparr> else s)"

subsection \<open>The list of recordings\<close>

definition is_digit :: "char \<Rightarrow> bool" where
  "is_digit c = (c \<in> set ''0123456789'')"

text \<open>
  The regular expression \<open>/motion_(\d{8})_(\d{6})\.avi/\<close> tried at the start of \<open>s\<close>:
  the two groups if it matches there.
\<close>

definition match_here :: "string \<Rightarrow> (string \<times> string) option" where
  "match_here s =
     (let g1 = take 8 (drop 7 s); g2 = take 6 (drop 16 s) in
      if take 7 s = ''motion_'' \<and> length g1 = 8 \<and> list_all is_digit g1
         \<and> take 1 (drop 15 s) = ''_'' \<and> length g2 = 6 \<and> list_all is_digit g2
         \<and> take 4 (drop 22 s) = ''.avi''
      then Some (g1, g2) else None)"

text \<open>\<open>recording.match(...)\<close>: the expression is not anchored, the leftmost match wins.\<close>

fun match_regex :: "string \<Rightarrow> (string \<times> string) option" where
  "match_regex [] = match_here []"
| "match_regex (c # cs) =
     (case match_here (c # cs) of Some m \<Rightarrow> Some m | None \<Rightarrow> match_regex cs)"

text \<open>\<open>s.substring(a, b)\<close>: both indices are clamped to the length and swapped if needed.\<close>

definition substring :: "string \<Rightarrow> nat \<Rightarrow> nat \<Rightarrow> string" where
  "substring s a b =
     (let a' = min a (length s); b' = min b (length s)
      in take (max a' b' - min a' b') (drop (min a' b') s))"

text \<open>The title of an entry: lines 95 to 107.\<close>

definition dateStr_of :: "string \<Rightarrow> string" where
  "dateStr_of recording =
     (case match_regex recording of
        None \<Rightarrow> recording
      | Some (g1, g2) \<Rightarrow>
          let year = substring g1 0 4; month = substring g1 4 6; day = substring g1 6 8;
              hour = substring g2 0 2; minute = substring g2 2 4; second = substring g2 4 6
          in year @ ''-'' @ month @ ''-'' @ day @ '' '' @ hour @ '':'' @ minute @ '':'' @ second)"

text \<open>The template literal assigned to \<open>recordingItem.innerHTML\<close>, line breaks included.\<close>

definition recordingItem_innerHTML :: "string \<Rightarrow> string \<Rightarrow> string \<Rightarrow> string" where
  \<open>recordingItem_innerHTML dateStr folder recording =
     [CHR 0x0A] @ ''                    <div class="title">'' @ dateStr @ ''</div>''
     @ [CHR 0x0A] @ ''                    <div class="actions">''
     @ [CHR 0x0A] @ ''                        <button class="btn" onclick="window.location.href=''
     @ [CHR 0x27] @ ''/'' @ folder @ ''/'' @ recording @ [CHR 0x27] @ ''">''
     @ [CHR 0x0A] @ ''                            <i class="fas fa-download"></i> Download''
     @ [CHR 0x0A] @ ''                        </button>''
     @ [CHR 0x0A] @ ''                    </div>''
     @ [CHR 0x0A] @ ''                ''\<close>

text \<open>
  The body of the \<open>forEach\<close> callback for one element of the array. Calling \<open>match\<close>
  on anything but a string is a TypeError; the template literal evaluates
  \<open>OUTPUT_FOLDER\<close> before anything is written to the list.
\<close>

definition render_recording :: "page \<Rightarrow> json \<Rightarrow> state \<Rightarrow> completion" where
  "render_recording p rec s =
     (case rec of
        JStr recording \<Rightarrow>
          let dateStr = dateStr_of recording in
          (case resolve_OUTPUT_FOLDER p of
             Inl e \<Rightarrow> Throw e s
           | Inr folder \<Rightarrow>
               let recordingItem =
                     \<lparr>className = ''recording-item'',
                      innerHTML = recordingItem_innerHTML dateStr folder recording\<rparr>
               in Normal (s\<lparr>recordingsList_appended := recordingsList_appended s @ [recordingItem]\<rparr>))
      | _ \<Rightarrow> Throw TypeError s)"

text \<open>\<open>forEach\<close>: the callback on each element in turn; a throw ends the loop.\<close>

fun forEach_recording :: "page \<Rightarrow> json list \<Rightarrow> state \<Rightarrow> completion" where
  "forEach_recording p [] s = Normal s"
| "forEach_recording p (rec # recs) s =
     (case render_recording p rec s of
        Normal s' \<Rightarrow> forEach_recording p recs s'
      | Throw e s' \<Rightarrow> Throw e s')"

text \<open>\<open>fetchRecordings()\<close> up to its first \<open>await\<close>.\<close>

definition fetchRecordings_call :: "page \<Rightarrow> state \<Rightarrow> state" where
  "fetchRecordings_call p s =
     s\<lparr>fetched := RECORDINGS_URL p # fetched s, pendingRecordings := Suc (pendingRecordings s)\<rparr>"

text \<open>The \<open>try\<close> block of \<open>fetchRecordings\<close>, from the outcome of the fetch on.\<close>

definition fetchRecordings_try :: "page \<Rightarrow> fetch_outcome \<Rightarrow> state \<Rightarrow> completion" where
  "fetchRecordings_try p r s =
     (case r of
        NetworkFailure \<Rightarrow> Throw TypeError s
      | Response code None \<Rightarrow> Throw SyntaxError s
      | Response code (Some recordings) \<Rightarrow>
          let s1 = s\<lparr>recordingsList_innerHTML := [], recordingsList_appended := []\<rparr> in
          (case get_prop recordings ''length'' of
             Inl e \<Rightarrow> Throw e s1
           | Inr len \<Rightarrow>
               if len = Val (JNum 0)
               then Normal (s1\<lparr>recordingsList_innerHTML := ''<p>No recordings found.</p>'',
                               recordingsList_appended := []\<rparr>)
               else (case recordings of
                       JArr recs \<Rightarrow> forEach_recording p recs s1
                     | _ \<Rightarrow> Throw TypeError s1)))"

definition fetchRecordings :: "page \<Rightarrow> fetch_outcome \<Rightarrow> state \<Rightarrow> completion" where
  "fetchRecordings p r s =
     (case fetchRecordings_try p r s of
        Normal s' \<Rightarrow> Normal s'
      | Throw e s' \<Rightarrow>
          Normal (s'\<lparr>console := (''Error fetching recordings:'', Some e) # console s',
                     recordingsList_innerHTML := ''<p>Error loading recordings.</p>'',
                     recordingsList_appended := []\<rparr>))"

subsection \<open>Initialisation and the event handlers\<close>

text \<open>
  The state when the script starts: the document as the page gives it, the two variables
  as lines 21 and 22 declare them, and a browser with no timer and no request yet.
\<close>

definition script_start :: "document \<Rightarrow> state" where
  "script_start d =
     \<lparr>videoFeed_src = videoFeed_src d,
      statusIndicator_className = statusIndicator_className d,
      statusText_textContent = statusText_textContent d,
      headCount_textContent = headCount_textContent d,
      recordingStatus_textContent = recordingStatus_textContent d,
      motionStatus_textContent = motionStatus_textContent d,
      recordingsList_innerHTML = recordingsList_innerHTML d,
      recordingsList_appended = recordingsList_appended d,
      isRunning = True,
      statusInterval = None,
      now = 0,
      timers = [],
      nextHandle = 1,
      fetched = [],
      pendingStatus = 0,
      pendingRecordings = 0,
      console = [],
      unhandled = []\<rparr>"

definition init :: "page \<Rightarrow> state \<Rightarrow> state" where
  "init p s =
     (let s1 = s\<lparr>videoFeed_src := VIDEO_FEED_URL p\<rparr>;
          s2 = startStatusUpdates p s1
      in fetchRecordings_call p s2)"

definition DOMContentLoaded :: "page \<Rightarrow> document \<Rightarrow> state" where
  "DOMContentLoaded p d = init p (script_start d)"

definition startBtn_click :: "page \<Rightarrow> state \<Rightarrow> state" where
  "startBtn_click p s =
     (if \<not> isRunning s
      then (startStatusUpdates p (s\<lparr>videoFeed_src := VIDEO_FEED_URL p\<rparr>))\<lparr>isRunning := True\<rparr>
      else s)"

definition stopBtn_click :: "state \<Rightarrow> state" where
  "stopBtn_click s =
     (if isRunning s
      then (stopStatusUpdates (s\<lparr>videoFeed_src := []\<rparr>))
             \<lparr>isRunning := False,
              statusText_textContent := ''Stopped'',
              statusIndicator_className := ''status-indicator monitoring'',
              recordingStatus_textContent := ''Not Recording'',
              headCount_textContent := ''0'',
              motionStatus_textContent := ''System Stopped''\<rparr>
      else s)"

definition videoFeed_error :: "state \<Rightarrow> state" where
  "videoFeed_error s =
     s\<lparr>console := (''Video feed error'', None) # console s,
       statusText_textContent := ''Connection Error''\<rparr>"

subsection \<open>The clock and the events\<close>

text \<open>
  One millisecond passes: every timer due now calls \<open>updateStatus\<close> and is due again one
  period later.
\<close>

definition tick :: "page \<Rightarrow> state \<Rightarrow> state" where
  "tick p s =
     (let t = Suc (now s);
          fired = filter (\<lambda>tm. due tm = t) (timers s);
          s1 = s\<lparr>now := t,
                 timers := map (\<lambda>tm. if due tm = t then tm\<lparr>due := t + period tm\<rparr> else tm)
                             (timers s)\<rparr>
      in fold (\<lambda>tm. updateStatus_call p) fired s1)"

fun advance :: "page \<Rightarrow> nat \<Rightarrow> state \<Rightarrow> state" where
  "advance p 0 s = s"
| "advance p (Suc n) s = advance p n (tick p s)"

text \<open>
  What can happen after initialisation: a click on one of the three buttons, an error
  event of the video element, time passing, and the browser settling a pending fetch.
\<close>

datatype event =
    StartClick
  | StopClick
  | RefreshClick
  | VideoError
  | Advance nat
  | StatusSettled fetch_outcome
  | RecordingsSettled fetch_outcome

text \<open>A promise nobody awaits: a rejection is recorded, nothing else happens.\<close>

definition settle :: "completion \<Rightarrow> state" where
  "settle c = (case c of Normal s \<Rightarrow> s | Throw e s \<Rightarrow> s\<lparr>unhandled := e # unhandled s\<rparr>)"

fun step :: "page \<Rightarrow> event \<Rightarrow> state \<Rightarrow> state" where
  "step p StartClick s = startBtn_click p s"
| "step p StopClick s = stopBtn_click s"
| "step p RefreshClick s = fetchRecordings_call p s"
| "step p VideoError s = videoFeed_error s"
| "step p (Advance n) s = advance p n s"
| "step p (StatusSettled r) s =
     (if pendingStatus s = 0 then s
      else settle (updateStatus r (s\<lparr>pendingStatus := pendingStatus s - 1\<rparr>)))"
| "step p (RecordingsSettled r) s =
     (if pendingRecordings s = 0 then s
      else settle (fetchRecordings p r (s\<lparr>pendingRecordings := pendingRecordings s - 1\<rparr>)))"

definition run :: "page \<Rightarrow> event list \<Rightarrow> state \<Rightarrow> state" where
  "run p es s = fold (step p) es s"

section \<open>Notions used to state the properties\<close>

text \<open>
  A status object as the backend documents it:
  \<open>{headCount: integer, recording: boolean, status: string, motionStatus: string}\<close>.
  \<open>snapshot\<close> decodes a parsed body of that shape into its four fields.
\<close>

definition snapshot :: "json \<Rightarrow> (int \<times> bool \<times> string \<times> string) option" where
  "snapshot data =
     (case data of
        JObj kvs \<Rightarrow>
          (case (map_of kvs ''headCount'', map_of kvs ''recording'',
                 map_of kvs ''status'', map_of kvs ''motionStatus'') of
             (Some (JNum n), Some (JBool b), Some (JStr st), Some (JStr ms)) \<Rightarrow> Some (n, b, st, ms)
           | _ \<Rightarrow> None)
      | _ \<Rightarrow> None)"

text \<open>The classes of an element: the words of its \<open>className\<close>, separated by spaces.\<close>

fun splitOn :: "char \<Rightarrow> string \<Rightarrow> string list" where
  "splitOn c [] = [[]]"
| "splitOn c (x # xs) =
     (if x = c then [] # splitOn c xs
      else (case splitOn c xs of [] \<Rightarrow> [[x]] | w # ws \<Rightarrow> (x # w) # ws))"

definition classList :: "string \<Rightarrow> string list" where
  "classList cls = filter (\<lambda>w. w \<noteq> []) (splitOn CHR '' '' cls)"

text \<open>The four regions of the status display (the recording region is a label and a class).\<close>

definition status_display :: "state \<Rightarrow> string \<times> string \<times> string \<times> string \<times> string" where
  "status_display s =
     (headCount_textContent s, recordingStatus_textContent s, statusIndicator_className s,
      statusText_textContent s, motionStatus_textContent s)"

fun state_of :: "completion \<Rightarrow> state" where
  "state_of (Normal s) = s"
| "state_of (Throw e s) = s"

fun throws :: "completion \<Rightarrow> bool" where
  "throws (Normal s) = False"
| "throws (Throw e s) = True"

definition http_error :: "nat \<Rightarrow> bool" where
  "http_error code = (400 \<le> code \<and> code \<le> 599)"

text \<open>
  A failing status fetch in the words of the specification: a transport failure, a body
  that is not valid JSON, or a response with an HTTP error status.
\<close>

definition failing_status_fetch :: "fetch_outcome \<Rightarrow> bool" where
  "failing_status_fetch r =
     (case r of
        NetworkFailure \<Rightarrow> True
      | Response code None \<Rightarrow> True
      | Response code (Some data) \<Rightarrow> http_error code)"

text \<open>
  The text \<open>motion_\<close>, eight digits \<open>g1\<close>, \<open>_\<close>, six digits \<open>g2\<close>, \<open>.avi\<close>
  stands in \<open>f\<close> from position \<open>i\<close> on (26 characters in all).
\<close>

definition pattern_at :: "string \<Rightarrow> nat \<Rightarrow> string \<Rightarrow> string \<Rightarrow> bool" where
  "pattern_at f i g1 g2 =
     (length g1 = 8 \<and> list_all is_digit g1 \<and> length g2 = 6 \<and> list_all is_digit g2
      \<and> take 26 (drop i f) = ''motion_'' @ g1 @ ''_'' @ g2 @ ''.avi'')"

text \<open>Polling is active when the browser holds an interval timer of the script.\<close>

definition polling_active :: "state \<Rightarrow> bool" where
  "polling_active s = (timers s \<noteq> [])"

text \<open>How many requests for the status have been issued.\<close>

definition status_fetches :: "page \<Rightarrow> state \<Rightarrow> nat" where
  "status_fetches p s = count_list (fetched s) (STATUS_URL p)"

text \<open>
  The invariant of the controller. Running: the video shows the live feed, and
  \<open>statusInterval\<close> holds the handle of the only timer, of period 1000 ms and due within
  the next 1000 ms. Stopped: the source is blank, \<open>statusInterval\<close> is \<open>null\<close> and no
  timer is left.
\<close>

definition controller_inv :: "page \<Rightarrow> state \<Rightarrow> bool" where
  "controller_inv p s =
     (0 < nextHandle s \<and>
      (if isRunning s
       then videoFeed_src s = VIDEO_FEED_URL p \<and>
            (case statusInterval s of
               None \<Rightarrow> False
             | Some h \<Rightarrow> 0 < h \<and> h < nextHandle s \<and>
                 timers s = [\<lparr>handle = h, period = 1000, due = due (hd (timers s))\<rparr>] \<and>
                 now s < due (hd (timers s)) \<and> due (hd (timers s)) \<le> now s + 1000)
       else videoFeed_src s = [] \<and> statusInterval s = None \<and> timers s = []))"

text \<open>The fields that the settling of a fetch never touches.\<close>

definition control ::
  "state \<Rightarrow> bool \<times> nat option \<times> nat \<times> timer list \<times> nat \<times> string \<times> string list" where
  "control s =
     (isRunning s, statusInterval s, now s, timers s, nextHandle s, videoFeed_src s, fetched s)"

text \<open>
  The title of an entry as it stands in the markup: the \<open>div\<close> of class \<open>title\<close>
  around the text, which the template interpolates as it is, without escaping.
\<close>

definition title_markup :: "string \<Rightarrow> string" where
  \<open>title_markup t = ''<div class="title">'' @ t @ ''</div>''\<close>

text \<open>\<open>w\<close> stands somewhere in the string.\<close>

fun occurs_in :: "string \<Rightarrow> string \<Rightarrow> bool" where
  "occurs_in w [] = (w = [])"
| "occurs_in w (c # cs) = (take (length w) (c # cs) = w \<or> occurs_in w cs)"

text \<open>The list shows an entry with title \<open>t\<close>: the markup of some appended item holds it.\<close>

definition shows_title :: "state \<Rightarrow> string \<Rightarrow> bool" where
  "shows_title s t =
     list_ex (\<lambda>item. occurs_in (title_markup t) (innerHTML item)) (recordingsList_appended s)"

subsection \<open>A concrete page\<close>

definition example_page :: page where
  "example_page = \<lparr>origin = ''http://localhost:5000'', OUTPUT_FOLDER = None\<rparr>"


definition example_document :: document where
  "example_document =
     \<lparr>videoFeed_src = [],
      statusIndicator_className = ''status-indicator monitoring'',
      statusText_textContent = ''Monitoring'',
      headCount_textContent = ''0'',
      recordingStatus_textContent = ''Not Recording'',
      motionStatus_textContent = ''No Motion'',
      recordingsList_innerHTML = [],
      recordingsList_appended = []\<rparr>"

definition example_snapshot_idle :: json where
  "example_snapshot_idle =
     JObj [(''headCount'', JNum 0), (''recording'', JBool False),
           (''status'', JStr ''Monitoring''), (''motionStatus'', JStr ''No Motion'')]"

definition example_snapshot :: json where
  "example_snapshot =
     JObj [(''headCount'', JNum 3), (''recording'', JBool True),
           (''status'', JStr ''Monitoring''), (''motionStatus'', JStr ''Motion Detected'')]"

section \<open>Auxiliary facts\<close>

subsection \<open>Facts about the two fetches\<close>

lemma snapshotD:
  assumes "snapshot data = Some (n, b, st, ms)"
  shows "\<exists>kvs. data = JObj kvs \<and> map_of kvs ''headCount'' = Some (JNum n)
     \<and> map_of kvs ''recording'' = Some (JBool b) \<and> map_of kvs ''status'' = Some (JStr st)
     \<and> map_of kvs ''motionStatus'' = Some (JStr ms)"
  using assms unfolding snapshot_def
  by (auto split: json.splits option.splits)

lemma updateStatus_snapshot:
  assumes "snapshot data = Some (n, b, st, ms)"
  shows "updateStatus (Response code (Some data)) s =
     Normal (s\<lparr>headCount_textContent := toString (JNum n),
              recordingStatus_textContent := (if b then ''Recording'' else ''Not Recording''),
              statusIndicator_className :=
                (if b then ''status-indicator recording'' else ''status-indicator monitoring''),
              statusText_textContent := st,
              motionStatus_textContent := ms\<rparr>)"
proof -
  from snapshotD[OF assms] obtain kvs where d: "data = JObj kvs"
    and h: "map_of kvs ''headCount'' = Some (JNum n)"
    and r: "map_of kvs ''recording'' = Some (JBool b)"
    and t: "map_of kvs ''status'' = Some (JStr st)"
    and m: "map_of kvs ''motionStatus'' = Some (JStr ms)" by blast
  show ?thesis
    unfolding updateStatus_def updateStatus_try_def
    by (simp add: d h r t m Let_def del: toString.simps(3))
qed

lemma updateStatus_fails:
  "updateStatus NetworkFailure s =
     Normal (s\<lparr>console := (''Error fetching status:'', Some TypeError) # console s\<rparr>)"
  "updateStatus (Response code None) s =
     Normal (s\<lparr>console := (''Error fetching status:'', Some SyntaxError) # console s\<rparr>)"
  "updateStatus (Response code (Some JNull)) s =
     Normal (s\<lparr>console := (''Error fetching status:'', Some TypeError) # console s\<rparr>)"
  by (simp_all add: updateStatus_def updateStatus_try_def)

lemma updateStatus_never_throws: "\<not> throws (updateStatus r s)"
  by (simp add: updateStatus_def split: completion.splits)

lemma updateStatus_ignores_code:
  "updateStatus (Response code body) s = updateStatus (Response code' body) s"
  by (simp add: updateStatus_def updateStatus_try_def split: option.splits)

lemma fetchRecordings_fails:
  "fetchRecordings p NetworkFailure s =
     Normal (s\<lparr>console := (''Error fetching recordings:'', Some TypeError) # console s,
              recordingsList_innerHTML := ''<p>Error loading recordings.</p>'',
              recordingsList_appended := []\<rparr>)"
  "fetchRecordings p (Response code None) s =
     Normal (s\<lparr>console := (''Error fetching recordings:'', Some SyntaxError) # console s,
              recordingsList_innerHTML := ''<p>Error loading recordings.</p>'',
              recordingsList_appended := []\<rparr>)"
  by (simp_all add: fetchRecordings_def fetchRecordings_try_def)

lemma fetchRecordings_empty:
  "fetchRecordings p (Response code (Some (JArr []))) s =
     Normal (s\<lparr>recordingsList_innerHTML := ''<p>No recordings found.</p>'',
              recordingsList_appended := []\<rparr>)"
  by (simp add: fetchRecordings_def fetchRecordings_try_def)

lemma fetchRecordings_never_throws: "\<not> throws (fetchRecordings p r s)"
  by (simp add: fetchRecordings_def split: completion.splits)

lemma OUTPUT_FOLDER_undeclared: "''OUTPUT_FOLDER'' \<notin> set declared_identifiers"
  by (simp add: declared_identifiers_def)

lemma render_unbound:
  assumes "OUTPUT_FOLDER p = None"
  shows "render_recording p rec s = Throw (case rec of JStr f \<Rightarrow> ReferenceError | _ \<Rightarrow> TypeError) s"
  using assms by (simp add: render_recording_def resolve_OUTPUT_FOLDER_def split: json.splits)

lemma fetchRecordings_unbound:
  assumes "OUTPUT_FOLDER p = None" and "recs \<noteq> []"
  shows "fetchRecordings p (Response code (Some (JArr recs))) s =
     Normal (s\<lparr>console := (''Error fetching recordings:'',
                   Some (case hd recs of JStr f \<Rightarrow> ReferenceError | _ \<Rightarrow> TypeError)) # console s,
              recordingsList_innerHTML := ''<p>Error loading recordings.</p>'',
              recordingsList_appended := []\<rparr>)"
proof -
  from assms(2) obtain r rs where recs: "recs = r # rs" by (cases recs) auto
  show ?thesis
    by (simp add: fetchRecordings_def fetchRecordings_try_def recs render_unbound[OF assms(1)])
qed

subsection \<open>Facts about the file name pattern\<close>




lemma pattern_at_drop: "pattern_at (drop j f) 0 g1 g2 = pattern_at f j g1 g2"
  by (simp add: pattern_at_def)








lemma dateStr_of_embedded: "dateStr_of ''old_motion_20240115_143022.avi.bak'' = ''2024-01-15 14:30:22''"
  by (simp add: dateStr_of_def match_here_def substring_def is_digit_def)



subsection \<open>Facts about timers, the clock and the invariant\<close>

lemma controller_inv_cong: "control s' = control s \<Longrightarrow> controller_inv p s' = controller_inv p s"
  by (simp add: control_def controller_inv_def cong: option.case_cong)

lemma inv_running:
  assumes "controller_inv p s" and "isRunning s"
  obtains h d where "statusInterval s = Some h" and "0 < h" and "h < nextHandle s"
    and "timers s = [\<lparr>handle = h, period = 1000, due = d\<rparr>]" and "now s < d"
    and "d \<le> now s + 1000" and "videoFeed_src s = VIDEO_FEED_URL p"
  using assms unfolding controller_inv_def by (auto split: option.splits)

lemma inv_stopped:
  assumes "controller_inv p s" and "\<not> isRunning s"
  shows "statusInterval s = None" and "timers s = []" and "videoFeed_src s = []"
    and "0 < nextHandle s"
  using assms unfolding controller_inv_def by auto

lemma control_updateStatus: "control (settle (updateStatus r s)) = control s"
  by (auto simp: control_def settle_def updateStatus_def updateStatus_try_def Let_def
      split: fetch_outcome.splits option.splits sum.splits)

lemma control_render: "control (settle (render_recording p rec s)) = control s"
  by (auto simp: control_def settle_def render_recording_def Let_def
      split: json.splits sum.splits)

lemma control_forEach: "control (settle (forEach_recording p recs s)) = control s"
proof (induction recs arbitrary: s)
  case Nil
  then show ?case by (simp add: settle_def)
next
  case (Cons r recs)
  show ?case
  proof (cases "render_recording p r s")
    case (Normal s')
    have "control s' = control s" using control_render[of p r s] Normal by (simp add: settle_def)
    with Cons.IH[of s'] Normal show ?thesis by simp
  next
    case (Throw e s')
    then show ?thesis using control_render[of p r s] by simp
  qed
qed

lemma control_settle_Throw: "control (settle (Throw e s)) = control s"
  by (simp add: control_def settle_def)

lemma control_fetchRecordings: "control (settle (fetchRecordings p r s)) = control s"
proof -
  have a: "control (settle (fetchRecordings_try p r s)) = control s"
  proof (cases r)
    case NetworkFailure
    then show ?thesis by (simp add: fetchRecordings_try_def control_def settle_def)
  next
    case (Response code body)
    show ?thesis
    proof (cases body)
      case None
      then show ?thesis using Response by (simp add: fetchRecordings_try_def control_def settle_def)
    next
      case (Some recordings)
      let ?s1 = "s\<lparr>recordingsList_innerHTML := [], recordingsList_appended := []\<rparr>"
      have c1: "control ?s1 = control s" by (simp add: control_def)
      show ?thesis
        using Response Some c1 control_forEach[of p _ ?s1]
        by (auto simp: fetchRecordings_try_def Let_def control_settle_Throw
            split: sum.splits json.splits)
          (simp_all add: control_def settle_def)
    qed
  qed
  show ?thesis
  proof (cases "fetchRecordings_try p r s")
    case (Normal s')
    then show ?thesis using a by (simp add: fetchRecordings_def)
  next
    case (Throw e s')
    then show ?thesis using a by (simp add: fetchRecordings_def control_def settle_def)
  qed
qed

lemma fold_updateStatus_call:
  "fold (\<lambda>tm. updateStatus_call p) xs s =
     s\<lparr>fetched := replicate (length xs) (STATUS_URL p) @ fetched s,
       pendingStatus := pendingStatus s + length xs\<rparr>"
proof (induction xs arbitrary: s)
  case Nil
  show ?case by simp
next
  case (Cons x xs)
  have "fold (\<lambda>tm. updateStatus_call p) (x # xs) s
        = fold (\<lambda>tm. updateStatus_call p) xs (updateStatus_call p s)" by simp
  also have "\<dots> = (updateStatus_call p s)
        \<lparr>fetched := replicate (length xs) (STATUS_URL p) @ fetched (updateStatus_call p s),
         pendingStatus := pendingStatus (updateStatus_call p s) + length xs\<rparr>"
    by (rule Cons.IH)
  also have "\<dots> = s\<lparr>fetched := replicate (length (x # xs)) (STATUS_URL p) @ fetched s,
                       pendingStatus := pendingStatus s + length (x # xs)\<rparr>"
    by (simp add: updateStatus_call_def replicate_app_Cons_same)
  finally show ?case .
qed

lemma tick_none: "timers s = [] \<Longrightarrow> tick p s = s\<lparr>now := Suc (now s)\<rparr>"
  by (simp add: tick_def)

lemma advance_none: "timers s = [] \<Longrightarrow> advance p n s = s\<lparr>now := now s + n\<rparr>"
proof (induction n arbitrary: s)
  case 0
  show ?case by simp
next
  case (Suc n)
  have "advance p (Suc n) s = advance p n (s\<lparr>now := Suc (now s)\<rparr>)"
    using Suc.prems by (simp add: tick_none)
  also have "\<dots> = s\<lparr>now := now s + Suc n\<rparr>"
    using Suc.prems by (subst Suc.IH) simp_all
  finally show ?case .
qed

lemma tick_single:
  assumes "timers s = [\<lparr>handle = h, period = 1000, due = d\<rparr>]"
  shows "tick p s =
     (if d = Suc (now s)
      then s\<lparr>now := Suc (now s),
             timers := [\<lparr>handle = h, period = 1000, due = d + 1000\<rparr>],
             fetched := STATUS_URL p # fetched s,
             pendingStatus := Suc (pendingStatus s)\<rparr>
      else s\<lparr>now := Suc (now s)\<rparr>)"
  using assms by (simp add: tick_def updateStatus_call_def)

lemma tick_inv:
  assumes "controller_inv p s"
  shows "controller_inv p (tick p s)" and "isRunning (tick p s) = isRunning s"
proof -
  have "controller_inv p (tick p s) \<and> isRunning (tick p s) = isRunning s"
  proof (cases "isRunning s")
    case True
    from inv_running[OF assms True] obtain h d where
      si: "statusInterval s = Some h" and h: "0 < h" "h < nextHandle s"
      and t: "timers s = [\<lparr>handle = h, period = 1000, due = d\<rparr>]"
      and d: "now s < d" "d \<le> now s + 1000" and v: "videoFeed_src s = VIDEO_FEED_URL p"
      by blast
    show ?thesis
      using True si h d v t
      by (simp add: tick_single[OF t] controller_inv_def)
  next
    case False
    from inv_stopped[OF assms False] show ?thesis
      using False by (simp add: tick_none controller_inv_def)
  qed
  then show "controller_inv p (tick p s)" and "isRunning (tick p s) = isRunning s" by simp_all
qed

lemma advance_inv:
  "controller_inv p s \<Longrightarrow>
   controller_inv p (advance p n s) \<and> isRunning (advance p n s) = isRunning s"
proof (induction n arbitrary: s)
  case 0
  then show ?case by simp
next
  case (Suc n)
  from Suc.IH[OF tick_inv(1)[OF Suc.prems]] tick_inv(2)[OF Suc.prems]
  show ?case by simp
qed

lemma advance_single_fetched:
  "timers s = [\<lparr>handle = h, period = 1000, due = d\<rparr>] \<Longrightarrow> now s < d \<Longrightarrow>
   fetched (advance p n s) =
     replicate (if now s + n < d then 0 else (now s + n - d) div 1000 + 1) (STATUS_URL p)
     @ fetched s"
proof (induction n arbitrary: s d)
  case 0
  then show ?case by simp
next
  case (Suc n)
  show ?case
  proof (cases "d = Suc (now s)")
    case True
    let ?s' = "tick p s"
    have t': "timers ?s' = [\<lparr>handle = h, period = 1000, due = d + 1000\<rparr>]"
      and n': "now ?s' = Suc (now s)" and f': "fetched ?s' = STATUS_URL p # fetched s"
      using True by (simp_all add: tick_single[OF Suc.prems(1)])
    have lt: "now ?s' < d + 1000" using n' True by simp
    have "fetched (advance p (Suc n) s) = fetched (advance p n ?s')" by simp
    also have "\<dots> = replicate (if now ?s' + n < d + 1000 then 0
                                else (now ?s' + n - (d + 1000)) div 1000 + 1) (STATUS_URL p)
                     @ fetched ?s'"
      by (rule Suc.IH[OF t' lt])
    also have "\<dots> = replicate (Suc (if n < 1000 then 0 else (n - 1000) div 1000 + 1)) (STATUS_URL p)
                     @ fetched s"
      using True by (simp add: n' f' replicate_app_Cons_same)
    also have "Suc (if n < 1000 then 0 else (n - 1000) div 1000 + 1) = n div 1000 + 1"
      by (simp add: le_div_geq)
    also have "n div 1000 + 1 = (if now s + Suc n < d then 0 else (now s + Suc n - d) div 1000 + 1)"
      using True by simp
    finally show ?thesis .
  next
    case False
    let ?s' = "tick p s"
    have t': "timers ?s' = [\<lparr>handle = h, period = 1000, due = d\<rparr>]"
      and n': "now ?s' = Suc (now s)" and f': "fetched ?s' = fetched s"
      using False Suc.prems(1) by (simp_all add: tick_single[OF Suc.prems(1)])
    have lt: "now ?s' < d" using n' False Suc.prems(2) by simp
    have "fetched (advance p (Suc n) s) = fetched (advance p n ?s')" by simp
    also have "\<dots> = replicate (if now ?s' + n < d then 0
                                else (now ?s' + n - d) div 1000 + 1) (STATUS_URL p)
                     @ fetched ?s'"
      by (rule Suc.IH[OF t' lt])
    finally show ?thesis by (simp add: n' f')
  qed
qed

lemma control_fields:
  assumes "control s' = control s"
  shows "isRunning s' = isRunning s" and "fetched s' = fetched s" and "timers s' = timers s"
    and "statusInterval s' = statusInterval s" and "videoFeed_src s' = videoFeed_src s"
  using assms by (simp_all add: control_def)

lemma control_StatusSettled: "control (step p (StatusSettled r) s) = control s"
proof (cases "pendingStatus s = 0")
  case True
  then show ?thesis by simp
next
  case False
  have "control (s\<lparr>pendingStatus := pendingStatus s - 1\<rparr>) = control s"
    by (simp add: control_def)
  with control_updateStatus[of r "s\<lparr>pendingStatus := pendingStatus s - 1\<rparr>"] False
  show ?thesis by simp
qed

lemma control_RecordingsSettled: "control (step p (RecordingsSettled r) s) = control s"
proof (cases "pendingRecordings s = 0")
  case True
  then show ?thesis by simp
next
  case False
  have "control (s\<lparr>pendingRecordings := pendingRecordings s - 1\<rparr>) = control s"
    by (simp add: control_def)
  with control_fetchRecordings[of p r "s\<lparr>pendingRecordings := pendingRecordings s - 1\<rparr>"] False
  show ?thesis by simp
qed

lemma urls_differ: "RECORDINGS_URL p \<noteq> STATUS_URL p"
  by (simp add: RECORDINGS_URL_def STATUS_URL_def)

lemma VIDEO_FEED_URL_not_blank: "VIDEO_FEED_URL p \<noteq> []"
  by (simp add: VIDEO_FEED_URL_def)

lemma startBtn_click_stopped:
  assumes "controller_inv p s" and "\<not> isRunning s"
  shows "startBtn_click p s =
     s\<lparr>videoFeed_src := VIDEO_FEED_URL p,
       fetched := STATUS_URL p # fetched s,
       pendingStatus := Suc (pendingStatus s),
       timers := [\<lparr>handle = nextHandle s, period = 1000, due = now s + 1000\<rparr>],
       nextHandle := Suc (nextHandle s),
       statusInterval := Some (nextHandle s),
       isRunning := True\<rparr>"
  using assms(2) inv_stopped[OF assms]
  by (simp add: startBtn_click_def startStatusUpdates_def updateStatus_call_def setInterval_def)

lemma stopBtn_click_running:
  assumes "controller_inv p s" and "isRunning s"
  shows "stopBtn_click s =
     s\<lparr>videoFeed_src := [],
       timers := [],
       statusInterval := None,
       isRunning := False,
       statusText_textContent := ''Stopped'',
       statusIndicator_className := ''status-indicator monitoring'',
       recordingStatus_textContent := ''Not Recording'',
       headCount_textContent := ''0'',
       motionStatus_textContent := ''System Stopped''\<rparr>"
proof -
  from inv_running[OF assms] obtain h d where
    si: "statusInterval s = Some h" and h: "0 < h"
    and t: "timers s = [\<lparr>handle = h, period = 1000, due = d\<rparr>]" by blast
  show ?thesis
    using assms(2) si h t by (simp add: stopBtn_click_def stopStatusUpdates_def clearInterval_def)
qed

lemma DOMContentLoaded_state:
  "DOMContentLoaded p d =
     (script_start d)\<lparr>videoFeed_src := VIDEO_FEED_URL p,
       fetched := [RECORDINGS_URL p, STATUS_URL p],
       pendingStatus := 1,
       timers := [\<lparr>handle = 1, period = 1000, due = 1000\<rparr>],
       nextHandle := 2,
       statusInterval := Some 1,
       pendingRecordings := 1\<rparr>"
  by (simp add: DOMContentLoaded_def init_def startStatusUpdates_def updateStatus_call_def
      setInterval_def fetchRecordings_call_def script_start_def)

lemma DOMContentLoaded_inv: "controller_inv p (DOMContentLoaded p d)"
  by (simp add: DOMContentLoaded_state controller_inv_def script_start_def)

lemma DOMContentLoaded_running: "isRunning (DOMContentLoaded p d)"
  by (simp add: DOMContentLoaded_state script_start_def)

lemma step_inv:
  assumes "controller_inv p s"
  shows "controller_inv p (step p e s)"
proof (cases e)
  case StartClick
  show ?thesis
  proof (cases "isRunning s")
    case True
    then show ?thesis using assms StartClick by (simp add: startBtn_click_def)
  next
    case False
    show ?thesis
      using inv_stopped(4)[OF assms False]
      by (simp add: StartClick startBtn_click_stopped[OF assms False] controller_inv_def)
  qed
next
  case StopClick
  show ?thesis
  proof (cases "isRunning s")
    case True
    have "0 < nextHandle s" using assms by (simp add: controller_inv_def)
    then show ?thesis
      by (simp add: StopClick stopBtn_click_running[OF assms True] controller_inv_def)
  next
    case False
    then show ?thesis using assms StopClick by (simp add: stopBtn_click_def)
  qed
next
  case RefreshClick
  then show ?thesis
    using assms by (simp add: controller_inv_def fetchRecordings_call_def cong: option.case_cong)
next
  case VideoError
  have "control (videoFeed_error s) = control s"
    by (simp add: control_def videoFeed_error_def)
  from controller_inv_cong[OF this, of p] show ?thesis using assms VideoError by simp
next
  case (Advance n)
  then show ?thesis using advance_inv[OF assms] by simp
next
  case (StatusSettled r)
  then show ?thesis using assms controller_inv_cong[OF control_StatusSettled] by simp
next
  case (RecordingsSettled r)
  then show ?thesis using assms controller_inv_cong[OF control_RecordingsSettled] by simp
qed

lemma run_Nil: "run p [] s = s"
  by (simp add: run_def)

lemma run_Cons: "run p (e # es) s = run p es (step p e s)"
  by (simp add: run_def)

lemma run_inv: "controller_inv p s \<Longrightarrow> controller_inv p (run p es s)"
  by (induction es arbitrary: s) (simp_all add: run_Nil run_Cons step_inv)

lemma reachable_inv: "controller_inv p (run p es (DOMContentLoaded p d))"
  by (rule run_inv[OF DOMContentLoaded_inv])

lemma step_keeps_running:
  assumes "controller_inv p s" and "isRunning s" and "e \<noteq> StopClick"
  shows "isRunning (step p e s)"
proof (cases e)
  case StartClick
  then show ?thesis using assms(2) by (simp add: startBtn_click_def)
next
  case StopClick
  then show ?thesis using assms(3) by simp
next
  case RefreshClick
  then show ?thesis using assms(2) by (simp add: fetchRecordings_call_def)
next
  case VideoError
  then show ?thesis using assms(2) by (simp add: videoFeed_error_def)
next
  case (Advance n)
  then show ?thesis using advance_inv[OF assms(1)] assms(2) by simp
next
  case (StatusSettled r)
  then show ?thesis using control_fields(1)[OF control_StatusSettled] assms(2) by simp
next
  case (RecordingsSettled r)
  then show ?thesis using control_fields(1)[OF control_RecordingsSettled] assms(2) by simp
qed

lemma run_keeps_running:
  "controller_inv p s \<Longrightarrow> isRunning s \<Longrightarrow> StopClick \<notin> set es \<Longrightarrow> isRunning (run p es s)"
proof (induction es arbitrary: s)
  case Nil
  then show ?case by (simp add: run_Nil)
next
  case (Cons e es)
  have "isRunning (step p e s)" using Cons.prems by (intro step_keeps_running) auto
  with Cons show ?case by (simp add: run_Cons step_inv)
qed

lemma step_stays_stopped:
  assumes "controller_inv p s" and "\<not> isRunning s" and "e \<noteq> StartClick"
  shows "\<not> isRunning (step p e s)" and "status_fetches p (step p e s) = status_fetches p s"
proof -
  have "\<not> isRunning (step p e s) \<and> status_fetches p (step p e s) = status_fetches p s"
  proof (cases e)
    case StartClick
    then show ?thesis using assms(3) by simp
  next
    case StopClick
    then show ?thesis using assms(2) by (simp add: stopBtn_click_def)
  next
    case RefreshClick
    then show ?thesis
      using assms(2) urls_differ[of p]
      by (simp add: fetchRecordings_call_def status_fetches_def)
  next
    case VideoError
    then show ?thesis using assms(2) by (simp add: videoFeed_error_def status_fetches_def)
  next
    case (Advance n)
    then show ?thesis
      using assms(2) by (simp add: advance_none[OF inv_stopped(2)[OF assms(1,2)]] status_fetches_def)
  next
    case (StatusSettled r)
    then show ?thesis
      using control_fields(1,2)[OF control_StatusSettled, of p r s] assms(2)
      by (simp add: status_fetches_def)
  next
    case (RecordingsSettled r)
    then show ?thesis
      using control_fields(1,2)[OF control_RecordingsSettled, of p r s] assms(2)
      by (simp add: status_fetches_def)
  qed
  then show "\<not> isRunning (step p e s)"
    and "status_fetches p (step p e s) = status_fetches p s" by simp_all
qed

lemma run_stays_stopped:
  "controller_inv p s \<Longrightarrow> \<not> isRunning s \<Longrightarrow> StartClick \<notin> set es \<Longrightarrow>
   \<not> isRunning (run p es s) \<and> status_fetches p (run p es s) = status_fetches p s"
proof (induction es arbitrary: s)
  case Nil
  then show ?case by (simp add: run_Nil)
next
  case (Cons e es)
  have ne: "e \<noteq> StartClick" using Cons.prems(3) by auto
  have a: "\<not> isRunning (step p e s)" and b: "status_fetches p (step p e s) = status_fetches p s"
    using step_stays_stopped[OF Cons.prems(1,2) ne] by simp_all
  have "StartClick \<notin> set es" using Cons.prems(3) by simp
  from Cons.IH[OF step_inv[OF Cons.prems(1)] a this] b
  show ?case by (simp add: run_Cons)
qed

subsection \<open>Facts about classes and short names\<close>

lemma classList_recording:
  "classList ''status-indicator recording'' = [''status-indicator'', ''recording'']"
  by (simp add: classList_def)

lemma classList_monitoring:
  "classList ''status-indicator monitoring'' = [''status-indicator'', ''monitoring'']"
  by (simp add: classList_def)


lemma advance_after_start:
  assumes "controller_inv p s" and "\<not> isRunning s"
  shows "fetched (advance p n (startBtn_click p s)) =
           replicate (n div 1000) (STATUS_URL p) @ STATUS_URL p # fetched s"
proof -
  let ?s' = "startBtn_click p s"
  have t: "timers ?s' = [\<lparr>handle = nextHandle s, period = 1000, due = now s + 1000\<rparr>]"
    and n: "now ?s' = now s" and f: "fetched ?s' = STATUS_URL p # fetched s"
    by (simp_all add: startBtn_click_stopped[OF assms])
  have lt: "now ?s' < now s + 1000" by (simp add: n)
  have k: "(if now ?s' + n < now s + 1000 then 0 else (now ?s' + n - (now s + 1000)) div 1000 + 1)
           = n div 1000"
    by (simp add: n le_div_geq)
  show ?thesis
    using advance_single_fetched[OF t lt, of p n] by (simp only: k f)
qed

lemma example_stopped:
  "run example_page [StopClick] (DOMContentLoaded example_page example_document) =
     (script_start example_document)
       \<lparr>videoFeed_src := [],
        fetched := [RECORDINGS_URL example_page, STATUS_URL example_page],
        pendingStatus := 1,
        timers := [],
        nextHandle := 2,
        statusInterval := None,
        pendingRecordings := 1,
        isRunning := False,
        statusText_textContent := ''Stopped'',
        statusIndicator_className := ''status-indicator monitoring'',
        recordingStatus_textContent := ''Not Recording'',
        headCount_textContent := ''0'',
        motionStatus_textContent := ''System Stopped''\<rparr>"
  by (simp add: run_def DOMContentLoaded_state stopBtn_click_def stopStatusUpdates_def
      clearInterval_def script_start_def)


subsection \<open>Facts about the title in the markup\<close>






lemma not_shows_title_empty: "recordingsList_appended s = [] \<Longrightarrow> \<not> shows_title s t"
  by (simp add: shows_title_def)

section \<open>The properties of the specification\<close>

text \<open>
  C2. When the parsed body of a status response is a valid status object, \<open>updateStatus\<close>
  completes normally; if its \<open>recording\<close> field is \<open>true\<close> the label reads
  ``Recording'' and the indicator carries the class \<open>recording\<close> (and not
  \<open>monitoring\<close>), if it is \<open>false\<close> the label reads ``Not Recording'' and the
  indicator carries \<open>monitoring\<close> (and not \<open>recording\<close>).
\<close>

theorem updateStatus_recording_indicator:
  assumes "snapshot data = Some (n, b, st, ms)"
  shows "\<not> throws (updateStatus (Response code (Some data)) s)
    \<and> (b = True \<longrightarrow>
         recordingStatus_textContent (state_of (updateStatus (Response code (Some data)) s))
           = ''Recording''
       \<and> statusIndicator_className (state_of (updateStatus (Response code (Some data)) s))
           = ''status-indicator recording''
       \<and> ''recording'' \<in> set (classList (statusIndicator_className
             (state_of (updateStatus (Response code (Some data)) s))))
       \<and> ''monitoring'' \<notin> set (classList (statusIndicator_className
             (state_of (updateStatus (Response code (Some data)) s)))))
    \<and> (b = False \<longrightarrow>
         recordingStatus_textContent (state_of (updateStatus (Response code (Some data)) s))
           = ''Not Recording''
       \<and> statusIndicator_className (state_of (updateStatus (Response code (Some data)) s))
           = ''status-indicator monitoring''
       \<and> ''monitoring'' \<in> set (classList (statusIndicator_className
             (state_of (updateStatus (Response code (Some data)) s))))
       \<and> ''recording'' \<notin> set (classList (statusIndicator_className
             (state_of (updateStatus (Response code (Some data)) s)))))"
proof (cases b)
  case True
  then show ?thesis
    by (simp add: updateStatus_snapshot[OF assms] classList_recording del: toString.simps)
next
  case False
  then show ?thesis
    by (simp add: updateStatus_snapshot[OF assms] classList_monitoring del: toString.simps)
qed

theorem updateStatus_recording_indicator_witness:
  "snapshot example_snapshot = Some (3, True, ''Monitoring'', ''Motion Detected'')
   \<and> recordingStatus_textContent
        (state_of (updateStatus (Response 200 (Some example_snapshot))
           (DOMContentLoaded example_page example_document))) = ''Recording''
   \<and> ''recording'' \<in> set (classList (statusIndicator_className
        (state_of (updateStatus (Response 200 (Some example_snapshot))
           (DOMContentLoaded example_page example_document)))))
   \<and> snapshot example_snapshot_idle = Some (0, False, ''Monitoring'', ''No Motion'')
   \<and> recordingStatus_textContent
        (state_of (updateStatus (Response 200 (Some example_snapshot_idle))
           (DOMContentLoaded example_page example_document))) = ''Not Recording''
   \<and> ''monitoring'' \<in> set (classList (statusIndicator_className
        (state_of (updateStatus (Response 200 (Some example_snapshot_idle))
           (DOMContentLoaded example_page example_document)))))"
proof -
  have h: "snapshot example_snapshot = Some (3, True, ''Monitoring'', ''Motion Detected'')"
    by (simp add: snapshot_def example_snapshot_def)
  have h': "snapshot example_snapshot_idle = Some (0, False, ''Monitoring'', ''No Motion'')"
    by (simp add: snapshot_def example_snapshot_idle_def)
  from updateStatus_recording_indicator[OF h, of 200 "DOMContentLoaded example_page example_document"]
    updateStatus_recording_indicator[OF h', of 200 "DOMContentLoaded example_page example_document"]
  show ?thesis using h h' by blast
qed

text \<open>
  C4, as the code has it. A status fetch that fails in transport, or whose body is not
  valid JSON (whatever the HTTP status), leaves the status display as it was, adds one
  entry to the console and changes nothing else; \<open>updateStatus\<close> never throws. The HTTP
  status itself is never read: two responses with the same body are treated alike.
\<close>

theorem updateStatus_failure_keeps_display:
  "\<not> throws (updateStatus r s)
   \<and> (r = NetworkFailure \<or> r = Response code None \<longrightarrow>
        status_display (state_of (updateStatus r s)) = status_display s
      \<and> updateStatus r s =
          Normal (s\<lparr>console := (''Error fetching status:'',
                     Some (if r = NetworkFailure then TypeError else SyntaxError)) # console s\<rparr>))
   \<and> updateStatus (Response code body) s = updateStatus (Response code' body) s"
proof -
  have "r = NetworkFailure \<or> r = Response code None \<longrightarrow>
        status_display (state_of (updateStatus r s)) = status_display s
      \<and> updateStatus r s =
          Normal (s\<lparr>console := (''Error fetching status:'',
                     Some (if r = NetworkFailure then TypeError else SyntaxError)) # console s\<rparr>)"
    by (auto simp: updateStatus_fails status_display_def)
  then show ?thesis
    using updateStatus_never_throws[of r s] updateStatus_ignores_code[of code body s code']
    by blast
qed

theorem updateStatus_failure_keeps_display_witness:
  "status_display (state_of (updateStatus (Response 502 None)
       (DOMContentLoaded example_page example_document)))
   = (''0'', ''Not Recording'', ''status-indicator monitoring'', ''Monitoring'', ''No Motion'')"
proof -
  have "status_display (state_of (updateStatus (Response 502 None)
            (DOMContentLoaded example_page example_document)))
        = status_display (DOMContentLoaded example_page example_document)"
    using updateStatus_failure_keeps_display
      [of "Response 502 None" "DOMContentLoaded example_page example_document" 502 None 502]
    by blast
  then show ?thesis
    by (simp add: status_display_def DOMContentLoaded_state script_start_def example_document_def)
qed

text \<open>
  C4 as stated counts a response with an HTTP error status among the failing fetches. It
  fails there: a response with status 500 whose body is the JSON object
  \<open>{"error": "Internal Server Error"}\<close> is rendered, and blanks the head count, the status
  text and the motion status.
\<close>

theorem updateStatus_http_error_counterexample:
  "failing_status_fetch (Response 500 (Some (JObj [(''error'', JStr ''Internal Server Error'')])))
   \<and> status_display (DOMContentLoaded example_page example_document)
       = (''0'', ''Not Recording'', ''status-indicator monitoring'', ''Monitoring'', ''No Motion'')
   \<and> status_display (state_of (updateStatus
         (Response 500 (Some (JObj [(''error'', JStr ''Internal Server Error'')])))
         (DOMContentLoaded example_page example_document)))
       = ([], ''Not Recording'', ''status-indicator monitoring'', [], [])"
  by (simp add: failing_status_fetch_def http_error_def updateStatus_def updateStatus_try_def
      status_display_def DOMContentLoaded_state script_start_def example_document_def)

text \<open>
  C8. A recordings fetch that fails in transport, or whose body is not valid JSON, replaces
  the content of the list by the paragraph ``Error loading recordings.'', with no entry
  appended, logs the error, and \<open>fetchRecordings\<close> never throws.
\<close>

theorem fetchRecordings_failure_message:
  "\<not> throws (fetchRecordings p r s)
   \<and> (r = NetworkFailure \<or> r = Response code None \<longrightarrow>
        fetchRecordings p r s =
          Normal (s\<lparr>console := (''Error fetching recordings:'',
                     Some (if r = NetworkFailure then TypeError else SyntaxError)) # console s,
                   recordingsList_innerHTML := ''<p>Error loading recordings.</p>'',
                   recordingsList_appended := []\<rparr>))"
  using fetchRecordings_never_throws[of p r s]
  by (auto simp: fetchRecordings_fails)

theorem fetchRecordings_failure_message_witness:
  "recordingsList_innerHTML (state_of (fetchRecordings example_page NetworkFailure
       (DOMContentLoaded example_page example_document))) = ''<p>Error loading recordings.</p>''
   \<and> recordingsList_appended (state_of (fetchRecordings example_page NetworkFailure
       (DOMContentLoaded example_page example_document))) = []"
  using fetchRecordings_failure_message
    [of example_page NetworkFailure "DOMContentLoaded example_page example_document" 0]
  by simp

text \<open>
  C9. A recordings response whose body parses to the empty array leaves exactly the
  paragraph ``No recordings found.'' in the list, with no entry appended.
\<close>

theorem fetchRecordings_empty_placeholder:
  "fetchRecordings p (Response code (Some (JArr []))) s =
     Normal (s\<lparr>recordingsList_innerHTML := ''<p>No recordings found.</p>'',
              recordingsList_appended := []\<rparr>)"
  by (rule fetchRecordings_empty)

text \<open>
  C6. The script declares no identifier \<open>OUTPUT_FOLDER\<close>. On a page with no global of
  that name, building the markup of an entry throws a ReferenceError before anything is
  appended; so for every non-empty array the loop throws with nothing appended, and
  \<open>fetchRecordings\<close> ends in its \<open>catch\<close> branch: the error is logged and the list shows
  ``Error loading recordings.''.
\<close>

theorem OUTPUT_FOLDER_is_unbound:
  "''OUTPUT_FOLDER'' \<notin> set declared_identifiers
   \<and> (OUTPUT_FOLDER p = None \<longrightarrow>
        render_recording p (JStr f) s = Throw ReferenceError s
      \<and> (recs \<noteq> [] \<longrightarrow>
           throws (forEach_recording p recs s)
         \<and> recordingsList_appended (state_of (forEach_recording p recs s))
             = recordingsList_appended s
         \<and> fetchRecordings p (Response code (Some (JArr recs))) s =
             Normal (s\<lparr>console := (''Error fetching recordings:'',
                        Some (case hd recs of JStr f \<Rightarrow> ReferenceError | _ \<Rightarrow> TypeError))
                        # console s,
                      recordingsList_innerHTML := ''<p>Error loading recordings.</p>'',
                      recordingsList_appended := []\<rparr>)))"
proof -
  have "throws (forEach_recording p recs s)
         \<and> recordingsList_appended (state_of (forEach_recording p recs s))
             = recordingsList_appended s"
    if "OUTPUT_FOLDER p = None" and "recs \<noteq> []"
  proof -
    from that(2) obtain r rs where "recs = r # rs" by (cases recs) auto
    then show ?thesis by (simp add: render_unbound[OF that(1)])
  qed
  then show ?thesis
    using OUTPUT_FOLDER_undeclared fetchRecordings_unbound[of p recs code s]
      render_unbound[of p "JStr f" s]
    by simp
qed

theorem OUTPUT_FOLDER_is_unbound_witness:
  "OUTPUT_FOLDER example_page = None
   \<and> fetchRecordings example_page
        (Response 200 (Some (JArr [JStr ''motion_20240115_143022.avi''])))
        (script_start example_document)
     = Normal ((script_start example_document)
         \<lparr>console := [(''Error fetching recordings:'', Some ReferenceError)],
          recordingsList_innerHTML := ''<p>Error loading recordings.</p>'',
          recordingsList_appended := []\<rparr>)"
proof -
  have h: "OUTPUT_FOLDER example_page = None" by (simp add: example_page_def)
  from OUTPUT_FOLDER_is_unbound
    [of example_page "''x''" "script_start example_document"
        "[JStr ''motion_20240115_143022.avi'']" 200]
  show ?thesis using h by (simp add: script_start_def)
qed

text \<open>
  C1. After initialisation and any sequence of events (clicks on the three buttons, errors
  of the video element, time passing, fetches settling), polling is active exactly when
  the running flag is true, \<open>statusInterval\<close> is set exactly then, and the source of the
  video element is the live feed URL, which is not blank, exactly then.
\<close>

theorem running_flag_invariant:
  "polling_active (run p es (DOMContentLoaded p d)) = isRunning (run p es (DOMContentLoaded p d))
   \<and> (statusInterval (run p es (DOMContentLoaded p d)) \<noteq> None)
       = isRunning (run p es (DOMContentLoaded p d))
   \<and> (videoFeed_src (run p es (DOMContentLoaded p d)) = VIDEO_FEED_URL p)
       = isRunning (run p es (DOMContentLoaded p d))
   \<and> (videoFeed_src (run p es (DOMContentLoaded p d)) \<noteq> [])
       = isRunning (run p es (DOMContentLoaded p d))"
proof (cases "isRunning (run p es (DOMContentLoaded p d))")
  case True
  from inv_running[OF reachable_inv True] obtain h d' where
    "statusInterval (run p es (DOMContentLoaded p d)) = Some h"
    "timers (run p es (DOMContentLoaded p d)) = [\<lparr>handle = h, period = 1000, due = d'\<rparr>]"
    "videoFeed_src (run p es (DOMContentLoaded p d)) = VIDEO_FEED_URL p"
    by blast
  then show ?thesis using True VIDEO_FEED_URL_not_blank[of p] by (simp add: polling_active_def)
next
  case False
  from inv_stopped[OF reachable_inv False] show ?thesis
    using False VIDEO_FEED_URL_not_blank[of p] by (simp add: polling_active_def)
qed

theorem running_flag_invariant_witness:
  "\<not> isRunning (run example_page [StopClick] (DOMContentLoaded example_page example_document))
   \<and> \<not> polling_active (run example_page [StopClick] (DOMContentLoaded example_page example_document))
   \<and> videoFeed_src (run example_page [StopClick] (DOMContentLoaded example_page example_document))
       \<noteq> VIDEO_FEED_URL example_page"
proof -
  have "\<not> isRunning (run example_page [StopClick] (DOMContentLoaded example_page example_document))"
    by (simp add: example_stopped)
  then show ?thesis
    using running_flag_invariant[of example_page "[StopClick]" example_document] by blast
qed

text \<open>
  C3. In a state reached after initialisation, a click on the stop button while the running
  flag is true blanks the source of the video, removes the timer and clears
  \<open>statusInterval\<close>, sets the flag to false and writes the five fixed values; the
  indicator then carries the class \<open>monitoring\<close>. From then on no request for the status
  is issued, whatever time passes and whatever else happens, until the start button is
  clicked. A click while the flag is false changes nothing.
\<close>

theorem stop_click_effect:
  assumes "s = run p es (DOMContentLoaded p d)"
  shows "(isRunning s \<longrightarrow>
            stopBtn_click s =
              s\<lparr>videoFeed_src := [],
                timers := [],
                statusInterval := None,
                isRunning := False,
                statusText_textContent := ''Stopped'',
                statusIndicator_className := ''status-indicator monitoring'',
                recordingStatus_textContent := ''Not Recording'',
                headCount_textContent := ''0'',
                motionStatus_textContent := ''System Stopped''\<rparr>
          \<and> ''monitoring'' \<in> set (classList (statusIndicator_className (stopBtn_click s)))
          \<and> \<not> polling_active (stopBtn_click s)
          \<and> fetched (advance p n (stopBtn_click s)) = fetched (stopBtn_click s)
          \<and> (StartClick \<notin> set es' \<longrightarrow>
               status_fetches p (run p es' (stopBtn_click s)) = status_fetches p s))
       \<and> (\<not> isRunning s \<longrightarrow> stopBtn_click s = s)"
proof -
  have inv: "controller_inv p s" unfolding assms by (rule reachable_inv)
  have stopped: "stopBtn_click s = s" if "\<not> isRunning s"
    using that by (simp add: stopBtn_click_def)
  have running:
    "stopBtn_click s =
              s\<lparr>videoFeed_src := [],
                timers := [],
                statusInterval := None,
                isRunning := False,
                statusText_textContent := ''Stopped'',
                statusIndicator_className := ''status-indicator monitoring'',
                recordingStatus_textContent := ''Not Recording'',
                headCount_textContent := ''0'',
                motionStatus_textContent := ''System Stopped''\<rparr>
          \<and> ''monitoring'' \<in> set (classList (statusIndicator_className (stopBtn_click s)))
          \<and> \<not> polling_active (stopBtn_click s)
          \<and> fetched (advance p n (stopBtn_click s)) = fetched (stopBtn_click s)
          \<and> (StartClick \<notin> set es' \<longrightarrow>
               status_fetches p (run p es' (stopBtn_click s)) = status_fetches p s)"
    if r: "isRunning s"
  proof -
    note eq = stopBtn_click_running[OF inv r]
    have inv': "controller_inv p (stopBtn_click s)"
      using step_inv[OF inv, of StopClick] by simp
    have nr: "\<not> isRunning (stopBtn_click s)" by (simp add: eq)
    have t: "timers (stopBtn_click s) = []" by (simp add: eq)
    have f: "status_fetches p (stopBtn_click s) = status_fetches p s"
      by (simp add: eq status_fetches_def)
    have a: "''monitoring'' \<in> set (classList (statusIndicator_className (stopBtn_click s)))"
      by (simp add: eq classList_monitoring)
    have b: "\<not> polling_active (stopBtn_click s)" by (simp add: polling_active_def t)
    have c: "fetched (advance p n (stopBtn_click s)) = fetched (stopBtn_click s)"
      by (simp add: advance_none[OF t])
    have e: "status_fetches p (run p es' (stopBtn_click s)) = status_fetches p s"
      if "StartClick \<notin> set es'"
      using run_stays_stopped[OF inv' nr that] f by simp
    from eq a b c e show ?thesis by blast
  qed
  from stopped running show ?thesis by blast
qed

theorem stop_click_effect_witness:
  "isRunning (DOMContentLoaded example_page example_document)
   \<and> status_display (stopBtn_click (DOMContentLoaded example_page example_document))
       = (''0'', ''Not Recording'', ''status-indicator monitoring'', ''Stopped'', ''System Stopped'')
   \<and> videoFeed_src (stopBtn_click (DOMContentLoaded example_page example_document)) = []
   \<and> fetched (advance example_page 5000 (stopBtn_click (DOMContentLoaded example_page example_document)))
       = fetched (stopBtn_click (DOMContentLoaded example_page example_document))
   \<and> status_fetches example_page
        (run example_page [Advance 3000, RefreshClick, StopClick, VideoError]
           (stopBtn_click (DOMContentLoaded example_page example_document))) = 1
   \<and> \<not> isRunning (run example_page [StopClick] (DOMContentLoaded example_page example_document))
   \<and> stopBtn_click (run example_page [StopClick] (DOMContentLoaded example_page example_document))
       = run example_page [StopClick] (DOMContentLoaded example_page example_document)"
proof -
  have nr: "\<not> isRunning (run example_page [StopClick]
              (DOMContentLoaded example_page example_document))"
    by (simp add: example_stopped)
  from stop_click_effect[OF refl, of example_page "[StopClick]" example_document] nr
  have again: "stopBtn_click (run example_page [StopClick] (DOMContentLoaded example_page example_document))
       = run example_page [StopClick] (DOMContentLoaded example_page example_document)"
    by blast
  have s: "DOMContentLoaded example_page example_document
           = run example_page [] (DOMContentLoaded example_page example_document)"
    by (simp add: run_Nil)
  have r: "isRunning (DOMContentLoaded example_page example_document)"
    by (rule DOMContentLoaded_running)
  have n: "StartClick \<notin> set [Advance 3000, RefreshClick, StopClick, VideoError]" by simp
  have one: "status_fetches example_page (DOMContentLoaded example_page example_document) = 1"
    by (simp add: status_fetches_def DOMContentLoaded_state urls_differ)
  from stop_click_effect[OF s, of 5000 "[Advance 3000, RefreshClick, StopClick, VideoError]"] r n
  have eq: "stopBtn_click (DOMContentLoaded example_page example_document) =
              (DOMContentLoaded example_page example_document)\<lparr>videoFeed_src := [],
                timers := [],
                statusInterval := None,
                isRunning := False,
                statusText_textContent := ''Stopped'',
                statusIndicator_className := ''status-indicator monitoring'',
                recordingStatus_textContent := ''Not Recording'',
                headCount_textContent := ''0'',
                motionStatus_textContent := ''System Stopped''\<rparr>"
    and adv: "fetched (advance example_page 5000 (stopBtn_click (DOMContentLoaded example_page example_document)))
       = fetched (stopBtn_click (DOMContentLoaded example_page example_document))"
    and cnt: "status_fetches example_page
        (run example_page [Advance 3000, RefreshClick, StopClick, VideoError]
           (stopBtn_click (DOMContentLoaded example_page example_document)))
        = status_fetches example_page (DOMContentLoaded example_page example_document)"
    by blast+
  have "status_display (stopBtn_click (DOMContentLoaded example_page example_document))
       = (''0'', ''Not Recording'', ''status-indicator monitoring'', ''Stopped'', ''System Stopped'')"
    and "videoFeed_src (stopBtn_click (DOMContentLoaded example_page example_document)) = []"
    by (simp_all add: eq status_display_def)
  with r adv cnt one nr again show ?thesis by simp
qed

text \<open>
  C7. In a state reached after initialisation, a click on the start button while the running
  flag is false sets the source of the video to the live feed URL, issues one request for
  the status at once, registers a timer of period 1000 ms first due 1000 ms later, and sets
  the flag; from then on, after \<open>n\<close> milliseconds the timer has issued \<open>n div 1000\<close>
  further requests. A click while the flag is true changes nothing.
\<close>

theorem start_click_effect:
  assumes "s = run p es (DOMContentLoaded p d)"
  shows "(\<not> isRunning s \<longrightarrow>
            startBtn_click p s =
              s\<lparr>videoFeed_src := VIDEO_FEED_URL p,
                fetched := STATUS_URL p # fetched s,
                pendingStatus := Suc (pendingStatus s),
                timers := [\<lparr>handle = nextHandle s, period = 1000, due = now s + 1000\<rparr>],
                nextHandle := Suc (nextHandle s),
                statusInterval := Some (nextHandle s),
                isRunning := True\<rparr>
          \<and> polling_active (startBtn_click p s)
          \<and> fetched (advance p n (startBtn_click p s))
              = replicate (n div 1000) (STATUS_URL p) @ STATUS_URL p # fetched s)
       \<and> (isRunning s \<longrightarrow> startBtn_click p s = s)"
proof -
  have inv: "controller_inv p s" unfolding assms by (rule reachable_inv)
  have running: "startBtn_click p s = s" if "isRunning s"
    using that by (simp add: startBtn_click_def)
  have stopped:
    "startBtn_click p s =
              s\<lparr>videoFeed_src := VIDEO_FEED_URL p,
                fetched := STATUS_URL p # fetched s,
                pendingStatus := Suc (pendingStatus s),
                timers := [\<lparr>handle = nextHandle s, period = 1000, due = now s + 1000\<rparr>],
                nextHandle := Suc (nextHandle s),
                statusInterval := Some (nextHandle s),
                isRunning := True\<rparr>
          \<and> polling_active (startBtn_click p s)
          \<and> fetched (advance p n (startBtn_click p s))
              = replicate (n div 1000) (STATUS_URL p) @ STATUS_URL p # fetched s"
    if nr: "\<not> isRunning s"
  proof -
    note eq = startBtn_click_stopped[OF inv nr]
    have a: "polling_active (startBtn_click p s)" by (simp add: eq polling_active_def)
    from eq a advance_after_start[OF inv nr, of n] show ?thesis by blast
  qed
  from running stopped show ?thesis by blast
qed

theorem start_click_effect_witness:
  "\<not> isRunning (run example_page [StopClick] (DOMContentLoaded example_page example_document))
   \<and> videoFeed_src (startBtn_click example_page
        (run example_page [StopClick] (DOMContentLoaded example_page example_document)))
      = ''http://localhost:5000/video_feed''
   \<and> fetched (advance example_page 2500 (startBtn_click example_page
        (run example_page [StopClick] (DOMContentLoaded example_page example_document))))
      = [''http://localhost:5000/status'', ''http://localhost:5000/status'',
         ''http://localhost:5000/status'', ''http://localhost:5000/recordings'',
         ''http://localhost:5000/status'']
   \<and> isRunning (DOMContentLoaded example_page example_document)
   \<and> startBtn_click example_page (DOMContentLoaded example_page example_document)
      = DOMContentLoaded example_page example_document"
proof -
  let ?s = "run example_page [StopClick] (DOMContentLoaded example_page example_document)"
  have s0: "DOMContentLoaded example_page example_document
            = run example_page [] (DOMContentLoaded example_page example_document)"
    by (simp add: run_Nil)
  have r0: "isRunning (DOMContentLoaded example_page example_document)"
    by (rule DOMContentLoaded_running)
  from start_click_effect[OF s0] r0
  have same: "startBtn_click example_page (DOMContentLoaded example_page example_document)
      = DOMContentLoaded example_page example_document"
    by blast
  have nr: "\<not> isRunning ?s" by (simp add: example_stopped)
  have "fetched ?s = [RECORDINGS_URL example_page, STATUS_URL example_page]"
    by (simp add: example_stopped)
  then have f: "fetched ?s = [''http://localhost:5000/recordings'', ''http://localhost:5000/status'']"
    by (simp add: RECORDINGS_URL_def STATUS_URL_def example_page_def)
  have k: "replicate (2500 div 1000) x = [x, x]" for x :: string
    by (simp add: numeral_2_eq_2)
  from start_click_effect[OF refl, of example_page "[StopClick]" example_document 2500] nr
  have eq: "startBtn_click example_page ?s =
              ?s\<lparr>videoFeed_src := VIDEO_FEED_URL example_page,
                fetched := STATUS_URL example_page # fetched ?s,
                pendingStatus := Suc (pendingStatus ?s),
                timers := [\<lparr>handle = nextHandle ?s, period = 1000, due = now ?s + 1000\<rparr>],
                nextHandle := Suc (nextHandle ?s),
                statusInterval := Some (nextHandle ?s),
                isRunning := True\<rparr>"
    and adv: "fetched (advance example_page 2500 (startBtn_click example_page ?s))
              = replicate (2500 div 1000) (STATUS_URL example_page)
                @ STATUS_URL example_page # fetched ?s"
    by blast+
  have "videoFeed_src (startBtn_click example_page ?s) = VIDEO_FEED_URL example_page"
    by (simp add: eq)
  then have src:
    "videoFeed_src (startBtn_click example_page ?s) = ''http://localhost:5000/video_feed''"
    by (simp add: VIDEO_FEED_URL_def example_page_def)
  have "fetched (advance example_page 2500 (startBtn_click example_page ?s))
      = [''http://localhost:5000/status'', ''http://localhost:5000/status'',
         ''http://localhost:5000/status'', ''http://localhost:5000/recordings'',
         ''http://localhost:5000/status'']"
    unfolding adv k f by (simp add: STATUS_URL_def example_page_def)
  with nr src r0 same show ?thesis by simp
qed

text \<open>
  C10. The running flag is true when the script starts, before \<open>init\<close> runs. So after any
  events among which there is no click on the stop button the flag is still true, and a
  click on the start button returns the state as it is: the source of the video, the timer
  and the flag are untouched.
\<close>

theorem start_click_before_stop_is_noop:
  "isRunning (script_start d)
   \<and> DOMContentLoaded p d = init p (script_start d)
   \<and> (StopClick \<notin> set es \<longrightarrow>
        isRunning (run p es (DOMContentLoaded p d))
      \<and> step p StartClick (run p es (DOMContentLoaded p d)) = run p es (DOMContentLoaded p d))"
proof -
  have a: "isRunning (script_start d)" by (simp add: script_start_def)
  have b: "isRunning (run p es (DOMContentLoaded p d))
      \<and> step p StartClick (run p es (DOMContentLoaded p d)) = run p es (DOMContentLoaded p d)"
    if "StopClick \<notin> set es"
  proof -
    have "isRunning (run p es (DOMContentLoaded p d))"
      by (rule run_keeps_running[OF DOMContentLoaded_inv DOMContentLoaded_running that])
    then show ?thesis by (simp add: startBtn_click_def)
  qed
  from a b show ?thesis by (simp add: DOMContentLoaded_def)
qed

theorem start_click_before_stop_is_noop_witness:
  "StopClick \<notin> set [RefreshClick, Advance 1500, StartClick, VideoError]
   \<and> isRunning (run example_page [RefreshClick, Advance 1500, StartClick, VideoError]
        (DOMContentLoaded example_page example_document))
   \<and> step example_page StartClick
        (run example_page [RefreshClick, Advance 1500, StartClick, VideoError]
          (DOMContentLoaded example_page example_document))
      = run example_page [RefreshClick, Advance 1500, StartClick, VideoError]
          (DOMContentLoaded example_page example_document)"
proof -
  have h: "StopClick \<notin> set [RefreshClick, Advance 1500, StartClick, VideoError]" by simp
  from start_click_before_stop_is_noop
    [of example_document example_page "[RefreshClick, Advance 1500, StartClick, VideoError]"] h
  show ?thesis by blast
qed




end
